theory Spec2Isabelle
  imports Complex_Main "HOL-Library.AList" "HOL-Library.Multiset"
begin

section \<open>JavaScript values\<close>

text \<open>
  A JavaScript number as the plugin meets it: \<open>NaN\<close> (an invalid date, a failed
  parse), the two infinities, or a finite value. Finite values are reals: the thresholds
  and the arithmetic below are exact on the values compared, so rounding is not modelled.
\<close>

datatype number = NaN | PosInf | NegInf | Fin real

text \<open>\<^verbatim>\<open>x > c\<close> for a finite constant \<open>c\<close>: every comparison with \<open>NaN\<close> is false.\<close>

fun num_gt :: "number \<Rightarrow> real \<Rightarrow> bool" where
  "num_gt NaN c = False"
| "num_gt PosInf c = True"
| "num_gt NegInf c = False"
| "num_gt (Fin x) c = (x > c)"

text \<open>\<^verbatim>\<open>a - b\<close> on numbers (IEEE 754: \<open>NaN\<close> is absorbing, \<open>\<infinity> - \<infinity>\<close> is \<open>NaN\<close>).\<close>

fun num_sub :: "number \<Rightarrow> number \<Rightarrow> number" where
  "num_sub NaN b = NaN"
| "num_sub a NaN = NaN"
| "num_sub (Fin a) (Fin b) = Fin (a - b)"
| "num_sub (Fin a) PosInf = NegInf"
| "num_sub (Fin a) NegInf = PosInf"
| "num_sub PosInf PosInf = NaN"
| "num_sub PosInf b = PosInf"
| "num_sub NegInf NegInf = NaN"
| "num_sub NegInf b = NegInf"

text \<open>\<^verbatim>\<open>a / c\<close> for a positive finite constant \<open>c\<close>.\<close>

fun num_div_pos :: "number \<Rightarrow> real \<Rightarrow> number" where
  "num_div_pos (Fin a) c = Fin (a / c)"
| "num_div_pos a c = a"

text \<open>Truthiness of a number: \<open>0\<close> and \<open>NaN\<close> are falsy.\<close>

fun num_truthy :: "number \<Rightarrow> bool" where
  "num_truthy NaN = False"
| "num_truthy (Fin x) = (x \<noteq> 0)"
| "num_truthy a = True"

section \<open>Resolution selection (the \<open>avg\<close> parameter)\<close>

text \<open>
  \<^verbatim>\<open>(end.getTime() - start.getTime()) / (1000 * 60 * 60)\<close>, in \<open>api.ts\<close> and in
  \<open>datasource.ts\<close>.
\<close>

definition range_hours :: "number \<Rightarrow> number \<Rightarrow> number" where
  "range_hours start_ms end_ms = num_div_pos (num_sub end_ms start_ms) (1000 * 60 * 60)"

text \<open>The \<open>if\<close>/\<open>else if\<close> chain of \<open>PrtgApi.getSensorHistory\<close> (\<open>api.ts\<close>).\<close>

definition getSensorHistory_avg :: "number \<Rightarrow> string" where
  "getSensorHistory_avg hours =
     (if num_gt hours 720 then ''86400''
      else if num_gt hours 336 then ''3600''
      else if num_gt hours 168 then ''1800''
      else if num_gt hours 72 then ''900''
      else if num_gt hours 48 then ''600''
      else if num_gt hours 24 then ''300''
      else if num_gt hours 12 then ''120''
      else ''0'')"

text \<open>The same chain as \<open>DataSource.getAnnotations\<close> writes it (\<open>datasource.ts\<close>).\<close>

definition getAnnotations_avg :: "number \<Rightarrow> string" where
  "getAnnotations_avg hours =
     (if num_gt hours 720 then ''86400''
      else if num_gt hours 336 then ''3600''
      else if num_gt hours 168 then ''1800''
      else if num_gt hours 72 then ''900''
      else if num_gt hours 48 then ''600''
      else if num_gt hours 24 then ''300''
      else if num_gt hours 12 then ''120''
      else ''0'')"


section \<open>Values decoded from JSON, and thrown errors\<close>

text \<open>
  A value as \<^verbatim>\<open>response.data\<close> or a live frame carries it. An object is the list of
  its own enumerable properties in the order \<^verbatim>\<open>Object.entries\<close> yields them (keys
  distinct); a property that is absent reads as \<open>Undefined\<close>.
\<close>

datatype jsval =
    Undefined
  | Null
  | Bool bool
  | Num number
  | Str string
  | Arr "jsval list"
  | Obj "(string \<times> jsval) list"

text \<open>What the code can throw or reject with.\<close>

datatype error =
    TypeError
  | RangeError
  | SensorIdRequired
  | AccessDenied
  | UnexpectedStatus int
  | Rejected string
  | StreamingError error

text \<open>\<^verbatim>\<open>Boolean(v)\<close>, the test of \<^verbatim>\<open>if (v)\<close>, \<^verbatim>\<open>!v\<close>, \<^verbatim>\<open>a || b\<close> and \<^verbatim>\<open>a && b\<close>.\<close>

fun truthy :: "jsval \<Rightarrow> bool" where
  "truthy Undefined = False"
| "truthy Null = False"
| "truthy (Bool b) = b"
| "truthy (Num n) = num_truthy n"
| "truthy (Str s) = (s \<noteq> [])"
| "truthy (Arr xs) = True"
| "truthy (Obj kvs) = True"

text \<open>
  \<^verbatim>\<open>v.k\<close> for a data key \<open>k\<close> (\<open>channels\<close>, \<open>histdata\<close>, \<open>datetime\<close>, \<open>data\<close>, \<open>meta\<close>:
  none is a built-in property of arrays, strings or \<^verbatim>\<open>Object.prototype\<close>). Reading a
  property of \<^verbatim>\<open>null\<close> or \<^verbatim>\<open>undefined\<close> throws a TypeError.
\<close>

fun js_prop :: "jsval \<Rightarrow> string \<Rightarrow> jsval" where
  "js_prop (Obj kvs) k = (case map_of kvs k of Some v \<Rightarrow> v | None \<Rightarrow> Undefined)"
| "js_prop v k = Undefined"

definition getProp :: "jsval \<Rightarrow> string \<Rightarrow> error + jsval" where
  "getProp v k = (if v = Null \<or> v = Undefined then Inl TypeError else Inr (js_prop v k))"

text \<open>\<^verbatim>\<open>v.length\<close> of a value that is neither \<^verbatim>\<open>null\<close> nor \<^verbatim>\<open>undefined\<close>.\<close>

fun js_length :: "jsval \<Rightarrow> jsval" where
  "js_length (Arr xs) = Num (Fin (real (length xs)))"
| "js_length (Str s) = Num (Fin (real (length s)))"
| "js_length v = js_prop v ''length''"

subsection \<open>Decimal strings and property order\<close>

definition digit_char :: "nat \<Rightarrow> char" where
  "digit_char d = ''0123456789'' ! d"

function show_nat :: "nat \<Rightarrow> string" where
  "show_nat n = (if n < 10 then [digit_char n] else show_nat (n div 10) @ [digit_char (n mod 10)])"
  by pat_completeness auto
termination
  by (relation "measure id") auto

declare show_nat.simps [simp del]

definition show_int :: "int \<Rightarrow> string" where
  "show_int i = (if i < 0 then CHR ''-'' # show_nat (nat (- i)) else show_nat (nat i))"

definition is_digit :: "char \<Rightarrow> bool" where
  "is_digit c = (c \<in> set ''0123456789'')"

definition index_value :: "string \<Rightarrow> int" where
  "index_value s = foldl (\<lambda>a c. 10 * a + (of_char c - 48)) 0 s"

text \<open>
  An array index: the canonical decimal string of an integer below \<open>2^32 - 1\<close>, that
  is, below 4294967295. Own property keys enumerate with the array indices first,
  ascending, then the other string keys in the order they were created.
\<close>

definition is_array_index :: "string \<Rightarrow> bool" where
  "is_array_index s =
     (s \<noteq> [] \<and> list_all is_digit s \<and> (s = ''0'' \<or> hd s \<noteq> CHR ''0'')
      \<and> index_value s < 4294967295)"

text \<open>
  \<^verbatim>\<open>o[k] = v\<close>: a key that \<open>o\<close> does not own yet takes its place in the
  enumeration order, an owned key keeps its place.
\<close>

fun obj_define :: "string \<Rightarrow> 'v \<Rightarrow> (string \<times> 'v) list \<Rightarrow> (string \<times> 'v) list" where
  "obj_define k v [] = [(k, v)]"
| "obj_define k v (p # ps) =
     (if is_array_index k \<and> (\<not> is_array_index (fst p) \<or> index_value k < index_value (fst p))
      then (k, v) # p # ps
      else p # obj_define k v ps)"

definition obj_set :: "string \<Rightarrow> 'v \<Rightarrow> (string \<times> 'v) list \<Rightarrow> (string \<times> 'v) list" where
  "obj_set k v kvs = (if map_of kvs k = None then obj_define k v kvs else AList.update k v kvs)"

fun set_prop :: "jsval \<Rightarrow> string \<Rightarrow> jsval \<Rightarrow> jsval" where
  "set_prop (Obj kvs) k v = Obj (obj_set k v kvs)"
| "set_prop u k v = u"

text \<open>
  The names a plain object \<^verbatim>\<open>{}\<close> inherits from \<^verbatim>\<open>Object.prototype\<close>: reading one of
  them from an object that does not own it gives a function (or the prototype), which is
  truthy and has no \<^verbatim>\<open>push\<close>.
\<close>

definition object_prototype_keys :: "string list" where
  "object_prototype_keys =
     [''constructor'', ''__proto__'', ''hasOwnProperty'', ''isPrototypeOf'',
      ''propertyIsEnumerable'', ''toLocaleString'', ''toString'', ''valueOf'',
      ''__defineGetter__'', ''__defineSetter__'', ''__lookupGetter__'', ''__lookupSetter__'']"

text \<open>
  \<^verbatim>\<open>Object.entries(v)\<close> and \<^verbatim>\<open>{...v}\<close>: the own enumerable properties of \<open>v\<close>; an
  array and a string give their indices, the other primitives nothing.
\<close>

fun own_entries :: "jsval \<Rightarrow> (string \<times> jsval) list" where
  "own_entries (Obj kvs) = kvs"
| "own_entries (Arr xs) = zip (map show_nat [0..<length xs]) xs"
| "own_entries (Str s) = zip (map show_nat [0..<length s]) (map (\<lambda>c. Str [c]) s)"
| "own_entries v = []"

text \<open>\<^verbatim>\<open>xs.join(sep)\<close> on strings.\<close>

fun js_join :: "string \<Rightarrow> string list \<Rightarrow> string" where
  "js_join sep [] = []"
| "js_join sep [x] = x"
| "js_join sep (x # y # ys) = x @ sep @ js_join sep (y # ys)"

text \<open>Running a step over a list, stopping at the first throw.\<close>

fun fold_err :: "('a \<Rightarrow> 's \<Rightarrow> error + 's) \<Rightarrow> 'a list \<Rightarrow> 's \<Rightarrow> error + 's" where
  "fold_err f [] s = Inr s"
| "fold_err f (x # xs) s = (case f x s of Inl e \<Rightarrow> Inl e | Inr s' \<Rightarrow> fold_err f xs s')"

section \<open>The host and the backend\<close>

record http_response =
  status :: int
  response_data :: jsval

text \<open>
  What the plugin takes from its host: the \<^verbatim>\<open>Date\<close> constructor with \<^verbatim>\<open>getTime\<close>
  (\<open>NaN\<close> for an invalid date), \<^verbatim>\<open>toISOString\<close> of a range bound given as epoch
  milliseconds (it throws on an invalid one), \<^verbatim>\<open>parseFloat\<close>, \<^verbatim>\<open>Number\<close> on a string,
  \<^verbatim>\<open>toString\<close> on a number, and the outcome of the HTTP GET that \<^verbatim>\<open>buildApiUrl\<close> and
  \<^verbatim>\<open>getBackendSrv().fetch\<close> make for an endpoint and its parameters (a rejection, or
  the response, which may be missing).
\<close>

record host =
  date_getTime :: "jsval \<Rightarrow> number"
  toISOString :: "number \<Rightarrow> error + string"
  parseFloat :: "jsval \<Rightarrow> number"
  toNumber :: "string \<Rightarrow> number"
  number_toString :: "number \<Rightarrow> string"
  fetch :: "string \<Rightarrow> (string \<times> string) list \<Rightarrow> error + http_response option"

text \<open>\<open>PrtgApi.baseExecuteRequest\<close>: the catch block logs and rethrows.\<close>

definition baseExecuteRequest :: "host \<Rightarrow> string \<Rightarrow> (string \<times> string) list \<Rightarrow> error + jsval" where
  "baseExecuteRequest h endpoint params =
     (case fetch h endpoint params of
        Inl e \<Rightarrow> Inl e
      | Inr None \<Rightarrow> Inl AccessDenied
      | Inr (Some response) \<Rightarrow>
          if status response = 403 then Inl AccessDenied
          else if status response \<noteq> 200 then Inl (UnexpectedStatus (status response))
          else Inr (response_data response))"

text \<open>\<^verbatim>\<open>response.channels || response.histdata || []\<close>, the value \<open>getSensorHistory\<close> returns.\<close>

definition history_rows :: "jsval \<Rightarrow> error + jsval" where
  "history_rows response =
     (case getProp response ''channels'' of
        Inl e \<Rightarrow> Inl e
      | Inr channels \<Rightarrow>
          if truthy channels then Inr channels
          else (case getProp response ''histdata'' of
                  Inl e \<Rightarrow> Inl e
                | Inr histdata \<Rightarrow> if truthy histdata then Inr histdata else Inr (Arr [])))"

text \<open>
  The request parameters that \<open>PrtgApi.getSensorHistory\<close> builds: the two date strings go
  through \<^verbatim>\<open>new Date(...)\<close>, their difference in hours picks \<open>avg\<close>.
\<close>

definition history_params :: "host \<Rightarrow> number \<Rightarrow> string \<Rightarrow> string \<Rightarrow> (string \<times> string) list" where
  "history_params h sensorId startDate endDate =
     (let start = date_getTime h (Str startDate);
          end = date_getTime h (Str endDate);
          hours = range_hours start end;
          avg = getSensorHistory_avg hours
      in [(''id'', number_toString h sensorId), (''avg'', avg),
          (''sdate'', startDate), (''edate'', endDate),
          (''columns'', ''datetime,value_''), (''usecaption'', ''1''),
          (''count'', ''50000'')])"

text \<open>\<open>PrtgApi.getSensorHistory\<close>.\<close>

definition getSensorHistory :: "host \<Rightarrow> number \<Rightarrow> string \<Rightarrow> string \<Rightarrow> error + jsval" where
  "getSensorHistory h sensorId startDate endDate =
     (if \<not> num_truthy sensorId then Inl SensorIdRequired
      else
        case baseExecuteRequest h ''historicdata.json''
               (history_params h sensorId startDate endDate) of
          Inl e \<Rightarrow> Inl e
        | Inr response \<Rightarrow> history_rows response)"

section \<open>Queries (\<open>types.ts\<close>)\<close>

datatype QueryType = Metrics | Raw | Text | Manual

text \<open>
  \<^verbatim>\<open>panelId?: string | number\<close>. A numeric panel id is an integer; \<^verbatim>\<open>join\<close> prints it
  in decimal.
\<close>

datatype panel_id = PanelUndefined | PanelStr string | PanelNum int

text \<open>
  The fields of \<open>MyQuery\<close> that \<open>DataSource.query\<close> reads. An optional boolean is a
  \<open>bool option\<close>, \<open>None\<close> for \<^verbatim>\<open>undefined\<close>; \<open>channelArray\<close> is \<open>None\<close> when it is not an
  array.
\<close>

record MyQuery =
  refId :: string
  queryType :: QueryType
  group :: string
  device :: string
  sensor :: string
  sensorId :: string
  channel :: string
  channelArray :: "string list option"
  includeGroupName :: "bool option"
  includeDeviceName :: "bool option"
  includeSensorName :: "bool option"
  isStreaming :: "bool option"
  panelId :: panel_id

text \<open>The bounds of \<^verbatim>\<open>options.range\<close>, as epoch milliseconds.\<close>

record time_range =
  range_from :: number
  range_to :: number

record DataQueryRequest =
  targets :: "MyQuery list"
  range :: time_range

section \<open>The dispatcher (\<open>DataSource.query\<close>)\<close>

definition streamingTargets :: "MyQuery list \<Rightarrow> MyQuery list" where
  "streamingTargets ts =
     filter (\<lambda>query. isStreaming query = Some True \<and> queryType query = Metrics) ts"

definition regularTargets :: "MyQuery list \<Rightarrow> MyQuery list" where
  "regularTargets ts =
     filter (\<lambda>query. \<not> (isStreaming query = Some True) \<or> queryType query \<noteq> Metrics) ts"

section \<open>Streaming\<close>

text \<open>
  \<open>DataSource.getStreamId\<close>: its \<open>components\<close> array, as the strings \<^verbatim>\<open>join\<close> makes
  of its elements (a numeric panel id is truthy when it is not \<open>0\<close>), then
  \<^verbatim>\<open>components.filter(Boolean).join('_')\<close>.
\<close>

definition components :: "MyQuery \<Rightarrow> string list" where
  "components query =
     [case panelId query of
        PanelUndefined \<Rightarrow> ''default''
      | PanelStr s \<Rightarrow> if s \<noteq> [] then s else ''default''
      | PanelNum n \<Rightarrow> if n \<noteq> 0 then show_int n else ''default'',
      if refId query \<noteq> [] then refId query else ''A'',
      if sensorId query \<noteq> [] then sensorId query else [],
      case channelArray query of
        Some cs \<Rightarrow> js_join ''-'' cs
      | None \<Rightarrow> if channel query \<noteq> [] then channel query else []]"

definition getStreamId :: "MyQuery \<Rightarrow> string" where
  "getStreamId query = js_join ''_'' (filter (\<lambda>c. c \<noteq> []) (components query))"

text \<open>The body of \<^verbatim>\<open>frameData.forEach\<close>: the frame after it.\<close>

definition tag_frame :: "string \<Rightarrow> jsval \<Rightarrow> jsval" where
  "tag_frame streamId frame =
     (if truthy frame \<and> truthy (js_prop frame ''meta'') then
        set_prop frame ''meta''
          (Obj (obj_set ''preferredVisualisationType'' (Str ''graph'')
                 (obj_set ''streamId'' (Str streamId)
                   (obj_set ''streaming'' (Bool True)
                     (own_entries (js_prop frame ''meta''))))))
      else frame)"

text \<open>
  The \<^verbatim>\<open>map\<close> operator on the live stream, followed by \<^verbatim>\<open>catchError\<close>: the frames of
  the emitted \<^verbatim>\<open>{ data: frameData }\<close>, or the error the stream ends with.
\<close>

definition tag_response :: "string \<Rightarrow> jsval \<Rightarrow> error + jsval list" where
  "tag_response streamId response =
     (case getProp response ''data'' of
        Inl e \<Rightarrow> Inl (StreamingError e)
      | Inr d \<Rightarrow>
          (case (if truthy d then d else Arr []) of
             Arr frameData \<Rightarrow> Inr (map (tag_frame streamId) frameData)
           | _ \<Rightarrow> Inl (StreamingError TypeError)))"

section \<open>Normalization of a history response\<close>

datatype FieldType = FieldType_time | FieldType_number

record frame_field =
  field_name :: string
  field_values :: "number list"
  field_type :: FieldType

record data_frame =
  frame_refId :: string
  frame_name :: string
  frame_fields :: "frame_field list"

record query_result =
  result_refId :: string
  data :: "data_frame list"

text \<open>The three accumulators of the loop over the rows.\<close>

record norm_state =
  times :: "number list"
  values' :: "(string \<times> number list) list"
  channelLabels :: "(string \<times> string) list"

definition init_state :: norm_state where
  "init_state = \<lparr>times = [], values' = [], channelLabels = []\<rparr>"

text \<open>\<^verbatim>\<open>values[channel]\<close> when a frame is built (an array for every key of \<open>values\<close>).\<close>

definition values_of :: "norm_state \<Rightarrow> string \<Rightarrow> number list" where
  "values_of st key = (case map_of (values' st) key of Some arr \<Rightarrow> arr | None \<Rightarrow> [])"

text \<open>\<^verbatim>\<open>typeof value === 'number' ? value : parseFloat(value as string) || 0\<close>.\<close>

definition coerce_value :: "host \<Rightarrow> jsval \<Rightarrow> number" where
  "coerce_value h v =
     (case v of
        Num n \<Rightarrow> n
      | _ \<Rightarrow> (let p = parseFloat h v in if num_truthy p then p else Fin 0))"

text \<open>
  The body of \<^verbatim>\<open>Object.entries(item).forEach\<close>. \<^verbatim>\<open>values[key]\<close> is falsy only when
  \<open>values\<close> neither owns nor inherits \<open>key\<close>; on an inherited name nothing is initialised
  and \<^verbatim>\<open>values[key].push\<close> throws.
\<close>

definition push_entry :: "host \<Rightarrow> string \<times> jsval \<Rightarrow> norm_state \<Rightarrow> error + norm_state" where
  "push_entry h entry st =
     (case entry of (key, v) \<Rightarrow>
        if key \<noteq> ''datetime'' then
          (let st1 =
             (if map_of (values' st) key = None \<and> key \<notin> set object_prototype_keys
              then st\<lparr>values' := obj_set key [] (values' st),
                      channelLabels := obj_set key key (channelLabels st)\<rparr>
              else st)
           in case map_of (values' st1) key of
                Some arr \<Rightarrow>
                  Inr (st1\<lparr>values' := obj_set key (arr @ [coerce_value h v]) (values' st1)\<rparr>)
              | None \<Rightarrow> Inl TypeError)
        else Inr st)"

text \<open>The body of \<^verbatim>\<open>histDataArray.forEach\<close>.\<close>

definition process_item :: "host \<Rightarrow> jsval \<Rightarrow> norm_state \<Rightarrow> error + norm_state" where
  "process_item h item st =
     (case getProp item ''datetime'' of
        Inl e \<Rightarrow> Inl e
      | Inr datetime \<Rightarrow>
          if truthy datetime then
            fold_err (push_entry h) (own_entries item)
              (st\<lparr>times := times st @ [date_getTime h datetime]\<rparr>)
          else Inr st)"

definition normalize_rows :: "host \<Rightarrow> jsval list \<Rightarrow> error + norm_state" where
  "normalize_rows h histDataArray = fold_err (process_item h) histDataArray init_state"

text \<open>\<^verbatim>\<open>Object.keys(values).map(...)\<close>: one frame per channel.\<close>

definition make_frames :: "MyQuery \<Rightarrow> norm_state \<Rightarrow> data_frame list" where
  "make_frames target st =
     map (\<lambda>channel.
       let name = (case map_of (channelLabels st) channel of Some l \<Rightarrow> l | None \<Rightarrow> ''undefined'');
           prefixParts =
             (if includeGroupName target = Some True \<and> group target \<noteq> [] then [group target] else [])
             @ (if includeDeviceName target = Some True \<and> device target \<noteq> [] then [device target] else [])
             @ (if includeSensorName target = Some True \<and> sensor target \<noteq> [] then [sensor target] else []);
           prefix = (if prefixParts \<noteq> [] then js_join '' - '' prefixParts @ '' - '' else [])
       in \<lparr>frame_refId = refId target,
           frame_name = prefix @ name,
           frame_fields =
             [\<lparr>field_name = ''Time'', field_values = times st, field_type = FieldType_time\<rparr>,
              \<lparr>field_name = ''Value'',
               field_values = values_of st channel,
               field_type = FieldType_number\<rparr>]\<rparr>)
       (map fst (values' st))"

section \<open>The regular path\<close>

text \<open>\<^verbatim>\<open>toISOString().replace(/[:.]/g, '-').slice(0, 19)\<close>.\<close>

definition format_date :: "host \<Rightarrow> number \<Rightarrow> error + string" where
  "format_date h t =
     (case toISOString h t of
        Inl e \<Rightarrow> Inl e
      | Inr s \<Rightarrow> Inr (take 19 (map (\<lambda>c. if c = CHR '':'' \<or> c = CHR ''.'' then CHR ''-'' else c) s)))"

text \<open>The \<^verbatim>\<open>try\<close> block of the callback that resolves one regular target.\<close>

definition try_metrics :: "host \<Rightarrow> time_range \<Rightarrow> MyQuery \<Rightarrow> error + query_result" where
  "try_metrics h rng target =
     (case format_date h (range_from rng) of
        Inl e \<Rightarrow> Inl e
      | Inr startDate \<Rightarrow>
     (case format_date h (range_to rng) of
        Inl e \<Rightarrow> Inl e
      | Inr endDate \<Rightarrow>
     (case getSensorHistory h (toNumber h (sensorId target)) startDate endDate of
        Inl e \<Rightarrow> Inl e
      | Inr histData \<Rightarrow>
          if \<not> truthy (js_length histData) then
            Inr \<lparr>result_refId = refId target, data = []\<rparr>
          else
            (case normalize_rows h (case histData of Arr rows \<Rightarrow> rows | _ \<Rightarrow> []) of
               Inl e \<Rightarrow> Inl e
             | Inr st \<Rightarrow> Inr \<lparr>result_refId = refId target, data = make_frames target st\<rparr>))))"

text \<open>The callback of \<^verbatim>\<open>regularTargets.map\<close>: the \<^verbatim>\<open>catch\<close> turns a throw into no frames.\<close>

definition process_target :: "host \<Rightarrow> time_range \<Rightarrow> MyQuery \<Rightarrow> query_result" where
  "process_target h rng target =
     (if queryType target = Metrics \<and> sensorId target \<noteq> [] then
        (case try_metrics h rng target of
           Inl error \<Rightarrow> \<lparr>result_refId = refId target, data = []\<rparr>
         | Inr r \<Rightarrow> r)
      else \<lparr>result_refId = refId target, data = []\<rparr>)"

text \<open>\<^verbatim>\<open>results.flatMap(r => r.data)\<close> over the resolved targets.\<close>

definition regular_frames :: "host \<Rightarrow> time_range \<Rightarrow> MyQuery list \<Rightarrow> data_frame list" where
  "regular_frames h rng ts = concat (map (\<lambda>target. data (process_target h rng target)) ts)"

text \<open>
  What \<open>query\<close> merges: one live stream per streaming target, by its path, and the one
  emission of the regular frames when there is a regular target.
\<close>

datatype observable = LiveStream string | Emit "data_frame list"

definition query :: "host \<Rightarrow> DataQueryRequest \<Rightarrow> observable list" where
  "query h options =
     (let observables =
        map (\<lambda>q. LiveStream (''prtg-stream/'' @ getStreamId q)) (streamingTargets (targets options))
        @ (if regularTargets (targets options) \<noteq> []
           then [Emit (regular_frames h (range options) (regularTargets (targets options)))]
           else [])
      in if observables \<noteq> [] then observables else [Emit []])"

section \<open>A host and queries for the examples\<close>

text \<open>
  A host that knows three instants (midnight and one o'clock of 1 January 2024 and
  midnight of 3 January 2024, UTC) in the ISO format, reads a numeric timestamp as it is,
  gives an invalid date (\<open>NaN\<close>) on every other string, parses the float \<open>1.5\<close>, and whose
  backend answers for sensor 42 only: every other request is rejected.
\<close>

definition example_host :: host where
  "example_host =
     \<lparr>date_getTime = (\<lambda>v. case v of
          Num n \<Rightarrow> n
        | Str s \<Rightarrow> (if s = ''2024-01-01T00:00:00Z'' then Fin 1704067200000
                    else if s = ''2024-01-01T01:00:00Z'' then Fin 1704070800000
                    else if s = ''2024-01-03T00:00:00Z'' then Fin 1704240000000
                    else NaN)
        | _ \<Rightarrow> NaN),
      toISOString = (\<lambda>t. if t = Fin 1704067200000 then Inr ''2024-01-01T00:00:00.000Z''
                         else if t = Fin 1704070800000 then Inr ''2024-01-01T01:00:00.000Z''
                         else if t = Fin 1704240000000 then Inr ''2024-01-03T00:00:00.000Z''
                         else Inl RangeError),
      parseFloat = (\<lambda>v. if v = Str ''1.5'' then Fin 1.5 else NaN),
      toNumber = (\<lambda>s. if s = ''42'' then Fin 42 else if s = ''7'' then Fin 7 else NaN),
      number_toString = (\<lambda>n. if n = Fin 42 then ''42'' else if n = Fin 7 then ''7'' else ''NaN''),
      fetch = (\<lambda>endpoint params.
        if endpoint = ''historicdata.json'' \<and> map_of params ''id'' = Some ''42''
        then Inr (Some \<lparr>status = 200, response_data =
               Obj [(''histdata'', Arr
                 [Obj [(''datetime'', Str ''2024-01-01T00:00:00Z''), (''Value'', Num (Fin 1))],
                  Obj [(''datetime'', Str ''2024-01-01T01:00:00Z''), (''Value'', Str ''1.5'')]])]\<rparr>)
        else Inl (Rejected ''Network Error''))\<rparr>"

definition example_range :: time_range where
  "example_range = \<lparr>range_from = Fin 1704067200000, range_to = Fin 1704070800000\<rparr>"

text \<open>The 48 hours from midnight of 1 January 2024 to midnight of 3 January 2024.\<close>

definition example_range_48h :: time_range where
  "example_range_48h = \<lparr>range_from = Fin 1704067200000, range_to = Fin 1704240000000\<rparr>"

text \<open>The example host with a backend that rejects every request whose \<open>avg\<close> is not the given one.\<close>

definition backend_expecting :: "string \<Rightarrow> host" where
  "backend_expecting avg =
     example_host\<lparr>fetch := (\<lambda>endpoint params.
        if map_of params ''avg'' = Some avg then fetch example_host endpoint params
        else Inl (Rejected ''unexpected avg''))\<rparr>"

text \<open>The example host with a backend that answers every request with the body \<^verbatim>\<open>null\<close>.\<close>

definition null_body_host :: host where
  "null_body_host =
     example_host\<lparr>fetch := (\<lambda>endpoint params. Inr (Some \<lparr>status = 200, response_data = Null\<rparr>))\<rparr>"

text \<open>Panel 1, query A, on sensor 42 with the channel array \<open>[ch1]\<close>.\<close>

definition query_A :: MyQuery where
  "query_A =
     \<lparr>refId = ''A'', queryType = Metrics, group = ''G'', device = ''D'', sensor = ''S'',
      sensorId = ''42'', channel = [], channelArray = Some [''ch1''],
      includeGroupName = None, includeDeviceName = Some True, includeSensorName = None,
      isStreaming = None, panelId = PanelStr ''1''\<rparr>"

text \<open>Query B, on sensor 7, which the example backend rejects.\<close>

definition query_B :: MyQuery where
  "query_B = query_A\<lparr>refId := ''B'', sensorId := ''7''\<rparr>"

section \<open>Properties of the resolution selection\<close>

lemma range_hours_NaN: "range_hours NaN n = NaN \<and> range_hours n NaN = NaN"
  by (cases n) (simp_all add: range_hours_def)

lemma history_params_avg:
  "map_of (history_params h sid s e) ''avg'' =
     Some (getSensorHistory_avg (range_hours (date_getTime h (Str s)) (date_getTime h (Str e))))"
  by (simp add: history_params_def Let_def)

lemma try_metrics_48h_avg_0:
  "try_metrics (backend_expecting ''0'') example_range_48h query_A =
     Inr \<lparr>result_refId = ''A'',
          data = [\<lparr>frame_refId = ''A'', frame_name = ''D - Value'',
                   frame_fields =
                     [\<lparr>field_name = ''Time'', field_values = [Fin 1704067200000, Fin 1704070800000],
                       field_type = FieldType_time\<rparr>,
                      \<lparr>field_name = ''Value'', field_values = [Fin 1, Fin 1.5],
                       field_type = FieldType_number\<rparr>]\<rparr>]\<rparr>"
  by code_simp

lemma try_metrics_48h_avg_300:
  "try_metrics (backend_expecting ''300'') example_range_48h query_A = Inl (Rejected ''unexpected avg'')"
  by code_simp

lemma format_date_48h:
  "format_date example_host (range_from example_range_48h) = Inr ''2024-01-01T00-00-00''
   \<and> format_date example_host (range_to example_range_48h) = Inr ''2024-01-03T00-00-00''"
  by code_simp

text \<open>
  Claim C2. The bucket size is a total function of the range in hours: its result is one
  of the eight fixed buckets for every number (also \<open>NaN\<close> and the infinities), and on a
  finite range it is picked by the descending strict thresholds, the first match winning,
  so that exactly 48 hours give \<open>300\<close>. The hours are those between the instants that
  \<^verbatim>\<open>new Date\<close> reads from the two date strings of the request, divided out of their
  difference in milliseconds, and the bucket is the \<open>avg\<close> parameter of the request: two
  strings read as instants 48 hours apart send \<open>avg = 300\<close>. A string that \<^verbatim>\<open>new Date\<close>
  cannot read gives \<open>NaN\<close> hours and \<open>avg = 0\<close>, whatever the range. That is what happens
  on the way from \<open>query\<close>: it formats the bounds of the range as
  \<open>2024-01-01T00-00-00\<close> and \<open>2024-01-03T00-00-00\<close>, which are no dates to the example
  host, and for this range of 48 hours the request carries \<open>avg = 0\<close>: a backend that
  accepts only \<open>avg = 0\<close> answers it, one that accepts only \<open>avg = 300\<close> rejects it.
\<close>

theorem avg_of_requested_range:
  "getSensorHistory_avg x \<in> {''0'', ''120'', ''300'', ''600'', ''900'', ''1800'', ''3600'', ''86400''}
   \<and> (720 < y \<longrightarrow> getSensorHistory_avg (Fin y) = ''86400'')
   \<and> (336 < y \<and> y \<le> 720 \<longrightarrow> getSensorHistory_avg (Fin y) = ''3600'')
   \<and> (168 < y \<and> y \<le> 336 \<longrightarrow> getSensorHistory_avg (Fin y) = ''1800'')
   \<and> (72 < y \<and> y \<le> 168 \<longrightarrow> getSensorHistory_avg (Fin y) = ''900'')
   \<and> (48 < y \<and> y \<le> 72 \<longrightarrow> getSensorHistory_avg (Fin y) = ''600'')
   \<and> (24 < y \<and> y \<le> 48 \<longrightarrow> getSensorHistory_avg (Fin y) = ''300'')
   \<and> (12 < y \<and> y \<le> 24 \<longrightarrow> getSensorHistory_avg (Fin y) = ''120'')
   \<and> (y \<le> 12 \<longrightarrow> getSensorHistory_avg (Fin y) = ''0'')
   \<and> getSensorHistory_avg (Fin 48) = ''300''
   \<and> range_hours (Fin a) (Fin b) = Fin ((b - a) / 3600000)
   \<and> range_hours NaN n = NaN \<and> range_hours n NaN = NaN
   \<and> getSensorHistory_avg (range_hours (Fin a) (Fin (a + 48 * 3600000))) = ''300''
   \<and> history_params h sid s e =
        [(''id'', number_toString h sid),
         (''avg'', getSensorHistory_avg (range_hours (date_getTime h (Str s)) (date_getTime h (Str e)))),
         (''sdate'', s), (''edate'', e), (''columns'', ''datetime,value_''),
         (''usecaption'', ''1''), (''count'', ''50000'')]
   \<and> (date_getTime h (Str s) = Fin a \<and> date_getTime h (Str e) = Fin (a + 48 * 3600000)
        \<longrightarrow> map_of (history_params h sid s e) ''avg'' = Some ''300'')
   \<and> (date_getTime h (Str s) = NaN \<or> date_getTime h (Str e) = NaN
        \<longrightarrow> map_of (history_params h sid s e) ''avg'' = Some ''0'')
   \<and> (num_truthy sid \<longrightarrow>
        getSensorHistory h sid s e =
          (case baseExecuteRequest h ''historicdata.json'' (history_params h sid s e) of
             Inl err \<Rightarrow> Inl err
           | Inr response \<Rightarrow> history_rows response))
   \<and> (\<not> num_truthy sid \<longrightarrow> getSensorHistory h sid s e = Inl SensorIdRequired)
   \<and> format_date example_host (range_from example_range_48h) = Inr ''2024-01-01T00-00-00''
   \<and> format_date example_host (range_to example_range_48h) = Inr ''2024-01-03T00-00-00''
   \<and> map_of (history_params example_host (Fin 42) ''2024-01-01T00-00-00'' ''2024-01-03T00-00-00'') ''avg''
       = Some ''0''
   \<and> try_metrics (backend_expecting ''300'') example_range_48h query_A
       = Inl (Rejected ''unexpected avg'')
   \<and> try_metrics (backend_expecting ''0'') example_range_48h query_A =
       Inr \<lparr>result_refId = ''A'',
            data = [\<lparr>frame_refId = ''A'', frame_name = ''D - Value'',
                     frame_fields =
                       [\<lparr>field_name = ''Time'', field_values = [Fin 1704067200000, Fin 1704070800000],
                         field_type = FieldType_time\<rparr>,
                        \<lparr>field_name = ''Value'', field_values = [Fin 1, Fin 1.5],
                         field_type = FieldType_number\<rparr>]\<rparr>]\<rparr>"
proof -
  have chain: "getSensorHistory_avg x \<in> {''0'', ''120'', ''300'', ''600'', ''900'', ''1800'', ''3600'', ''86400''}
   \<and> (720 < y \<longrightarrow> getSensorHistory_avg (Fin y) = ''86400'')
   \<and> (336 < y \<and> y \<le> 720 \<longrightarrow> getSensorHistory_avg (Fin y) = ''3600'')
   \<and> (168 < y \<and> y \<le> 336 \<longrightarrow> getSensorHistory_avg (Fin y) = ''1800'')
   \<and> (72 < y \<and> y \<le> 168 \<longrightarrow> getSensorHistory_avg (Fin y) = ''900'')
   \<and> (48 < y \<and> y \<le> 72 \<longrightarrow> getSensorHistory_avg (Fin y) = ''600'')
   \<and> (24 < y \<and> y \<le> 48 \<longrightarrow> getSensorHistory_avg (Fin y) = ''300'')
   \<and> (12 < y \<and> y \<le> 24 \<longrightarrow> getSensorHistory_avg (Fin y) = ''120'')
   \<and> (y \<le> 12 \<longrightarrow> getSensorHistory_avg (Fin y) = ''0'')
   \<and> getSensorHistory_avg (Fin 48) = ''300''"
    by (simp add: getSensorHistory_avg_def)
  have rh: "range_hours (Fin a) (Fin b) = Fin ((b - a) / 3600000)"
    by (simp add: range_hours_def)
  have r48: "getSensorHistory_avg (range_hours (Fin a) (Fin (a + 48 * 3600000))) = ''300''"
    by (simp add: range_hours_def getSensorHistory_avg_def)
  have hp: "history_params h sid s e =
        [(''id'', number_toString h sid),
         (''avg'', getSensorHistory_avg (range_hours (date_getTime h (Str s)) (date_getTime h (Str e)))),
         (''sdate'', s), (''edate'', e), (''columns'', ''datetime,value_''),
         (''usecaption'', ''1''), (''count'', ''50000'')]"
    by (simp add: history_params_def Let_def)
  have p48: "date_getTime h (Str s) = Fin a \<and> date_getTime h (Str e) = Fin (a + 48 * 3600000)
        \<longrightarrow> map_of (history_params h sid s e) ''avg'' = Some ''300''"
    using r48 by (simp add: history_params_avg)
  have pnan: "date_getTime h (Str s) = NaN \<or> date_getTime h (Str e) = NaN
        \<longrightarrow> map_of (history_params h sid s e) ''avg'' = Some ''0''"
    using range_hours_NaN [of "date_getTime h (Str e)"] range_hours_NaN [of "date_getTime h (Str s)"]
    by (auto simp: history_params_avg getSensorHistory_avg_def)
  have gs: "num_truthy sid \<longrightarrow>
        getSensorHistory h sid s e =
          (case baseExecuteRequest h ''historicdata.json'' (history_params h sid s e) of
             Inl err \<Rightarrow> Inl err
           | Inr response \<Rightarrow> history_rows response)"
    by (simp add: getSensorHistory_def)
  have gn: "\<not> num_truthy sid \<longrightarrow> getSensorHistory h sid s e = Inl SensorIdRequired"
    by (simp add: getSensorHistory_def)
  have ex: "map_of (history_params example_host (Fin 42) ''2024-01-01T00-00-00'' ''2024-01-03T00-00-00'') ''avg''
       = Some ''0''"
    by code_simp
  have rest: "range_hours (Fin a) (Fin b) = Fin ((b - a) / 3600000)
   \<and> range_hours NaN n = NaN \<and> range_hours n NaN = NaN
   \<and> getSensorHistory_avg (range_hours (Fin a) (Fin (a + 48 * 3600000))) = ''300''
   \<and> history_params h sid s e =
        [(''id'', number_toString h sid),
         (''avg'', getSensorHistory_avg (range_hours (date_getTime h (Str s)) (date_getTime h (Str e)))),
         (''sdate'', s), (''edate'', e), (''columns'', ''datetime,value_''),
         (''usecaption'', ''1''), (''count'', ''50000'')]
   \<and> (date_getTime h (Str s) = Fin a \<and> date_getTime h (Str e) = Fin (a + 48 * 3600000)
        \<longrightarrow> map_of (history_params h sid s e) ''avg'' = Some ''300'')
   \<and> (date_getTime h (Str s) = NaN \<or> date_getTime h (Str e) = NaN
        \<longrightarrow> map_of (history_params h sid s e) ''avg'' = Some ''0'')
   \<and> (num_truthy sid \<longrightarrow>
        getSensorHistory h sid s e =
          (case baseExecuteRequest h ''historicdata.json'' (history_params h sid s e) of
             Inl err \<Rightarrow> Inl err
           | Inr response \<Rightarrow> history_rows response))
   \<and> (\<not> num_truthy sid \<longrightarrow> getSensorHistory h sid s e = Inl SensorIdRequired)
   \<and> format_date example_host (range_from example_range_48h) = Inr ''2024-01-01T00-00-00''
   \<and> format_date example_host (range_to example_range_48h) = Inr ''2024-01-03T00-00-00''
   \<and> map_of (history_params example_host (Fin 42) ''2024-01-01T00-00-00'' ''2024-01-03T00-00-00'') ''avg''
       = Some ''0''
   \<and> try_metrics (backend_expecting ''300'') example_range_48h query_A
       = Inl (Rejected ''unexpected avg'')
   \<and> try_metrics (backend_expecting ''0'') example_range_48h query_A =
       Inr \<lparr>result_refId = ''A'',
            data = [\<lparr>frame_refId = ''A'', frame_name = ''D - Value'',
                     frame_fields =
                       [\<lparr>field_name = ''Time'', field_values = [Fin 1704067200000, Fin 1704070800000],
                         field_type = FieldType_time\<rparr>,
                        \<lparr>field_name = ''Value'', field_values = [Fin 1, Fin 1.5],
                         field_type = FieldType_number\<rparr>]\<rparr>]\<rparr>"
    by (intro conjI, rule rh, rule range_hours_NaN [THEN conjunct1],
        rule range_hours_NaN [THEN conjunct2], rule r48, rule hp, rule p48, rule pnan, rule gs, rule gn,
        rule format_date_48h [THEN conjunct1], rule format_date_48h [THEN conjunct2], rule ex,
        rule try_metrics_48h_avg_300, rule try_metrics_48h_avg_0)
  show ?thesis
    using chain rest
    apply -
    apply (elim conjE)
    apply (intro conjI)
    apply assumption+
    done
qed

theorem avg_of_requested_range_witness:
  "map_of (history_params example_host (Fin 42) ''2024-01-01T00:00:00Z'' ''2024-01-03T00:00:00Z'') ''avg''
     = Some ''300''
   \<and> map_of (history_params example_host (Fin 42) ''2024-01-01T00-00-00'' ''2024-01-03T00:00:00Z'') ''avg''
     = Some ''0''
   \<and> getSensorHistory_avg (Fin 100) = ''900''"
proof -
  have d1: "date_getTime example_host (Str ''2024-01-01T00:00:00Z'') = Fin 1704067200000"
    by (simp add: example_host_def)
  have d2: "date_getTime example_host (Str ''2024-01-03T00:00:00Z'') = Fin (1704067200000 + 48 * 3600000)"
    by (simp add: example_host_def)
  have d3: "date_getTime example_host (Str ''2024-01-01T00-00-00'') = NaN"
    by (simp add: example_host_def)
  have i1: "date_getTime example_host (Str ''2024-01-01T00:00:00Z'') = Fin 1704067200000
      \<and> date_getTime example_host (Str ''2024-01-03T00:00:00Z'') = Fin (1704067200000 + 48 * 3600000)
      \<longrightarrow> map_of (history_params example_host (Fin 42) ''2024-01-01T00:00:00Z'' ''2024-01-03T00:00:00Z'') ''avg''
           = Some ''300''"
    and i3: "72 < (100::real) \<and> (100::real) \<le> 168 \<longrightarrow> getSensorHistory_avg (Fin 100) = ''900''"
    using avg_of_requested_range [of NaN 100 1704067200000 0 NaN example_host "Fin 42"
        "''2024-01-01T00:00:00Z''" "''2024-01-03T00:00:00Z''"]
    apply -
    apply (elim conjE, assumption)
    apply (elim conjE, assumption)
    done
  have i2: "date_getTime example_host (Str ''2024-01-01T00-00-00'') = NaN
      \<or> date_getTime example_host (Str ''2024-01-03T00:00:00Z'') = NaN
      \<longrightarrow> map_of (history_params example_host (Fin 42) ''2024-01-01T00-00-00'' ''2024-01-03T00:00:00Z'') ''avg''
           = Some ''0''"
    using avg_of_requested_range [of NaN 100 1704067200000 0 NaN example_host "Fin 42"
        "''2024-01-01T00-00-00''" "''2024-01-03T00:00:00Z''"]
    apply -
    apply (elim conjE, assumption)
    done
  have "map_of (history_params example_host (Fin 42) ''2024-01-01T00:00:00Z'' ''2024-01-03T00:00:00Z'') ''avg''
     = Some ''300''"
    using i1 d1 d2 by (simp only: simp_thms)
  moreover have "map_of (history_params example_host (Fin 42) ''2024-01-01T00-00-00'' ''2024-01-03T00:00:00Z'') ''avg''
     = Some ''0''"
    using i2 d3 by (simp only: simp_thms)
  moreover have "getSensorHistory_avg (Fin 100) = ''900''"
    using i3 by simp
  ultimately show ?thesis by (intro conjI)
qed

text \<open>
  Claim C3. At each exact threshold (12, 24, 48, 72, 168, 336, 720 hours) the selection
  picks the lower bucket, every comparison being strict, and 24.0001 hours give \<open>300\<close>.
  The lower bucket at exactly 24 hours is \<open>120\<close> (24 is above the threshold 12), not
  \<open>0\<close> as the claim has it.
\<close>

theorem avg_at_thresholds:
  "getSensorHistory_avg (Fin 12) = ''0''
   \<and> getSensorHistory_avg (Fin 24) = ''120''
   \<and> getSensorHistory_avg (Fin 48) = ''300''
   \<and> getSensorHistory_avg (Fin 72) = ''600''
   \<and> getSensorHistory_avg (Fin 168) = ''900''
   \<and> getSensorHistory_avg (Fin 336) = ''1800''
   \<and> getSensorHistory_avg (Fin 720) = ''3600''
   \<and> getSensorHistory_avg (Fin 24.0001) = ''300''"
  by (simp add: getSensorHistory_avg_def)

theorem avg_at_24_counterexample:
  "getSensorHistory_avg (Fin 24.0) \<noteq> ''0'' \<and> getSensorHistory_avg (Fin 24.0) = ''120''"
  by (simp add: getSensorHistory_avg_def)

text \<open>
  Claim C9. The threshold chain of the sensor-history fetch and the one of the annotation
  fetch give the same \<open>avg\<close> string for every hours value.
\<close>

theorem avg_call_sites_agree: "getAnnotations_avg = getSensorHistory_avg"
  by (rule ext) (simp add: getAnnotations_avg_def getSensorHistory_avg_def)

section \<open>Lemmas on objects, loops and decimal strings\<close>

lemma map_of_obj_define:
  "map_of kvs k = None \<Longrightarrow> map_of (obj_define k v kvs) = (map_of kvs)(k \<mapsto> v)"
proof (induction kvs)
  case Nil
  show ?case by simp
next
  case (Cons p ps)
  from Cons.prems have ne: "k \<noteq> fst p" and none: "map_of ps k = None"
    by (auto split: if_splits)
  have ih: "map_of (obj_define k v ps) = (map_of ps)(k \<mapsto> v)"
    by (rule Cons.IH [OF none])
  have tw: "(map_of ps)(k \<mapsto> v, fst p \<mapsto> snd p) = (map_of ps)(fst p \<mapsto> snd p, k \<mapsto> v)"
    using ne by (simp add: fun_upd_twist)
  show ?case
    using ih tw by (cases p) auto
qed

lemma map_of_obj_set: "map_of (obj_set k v kvs) = (map_of kvs)(k \<mapsto> v)"
  by (simp add: obj_set_def map_of_obj_define AList.update_conv')

lemma fold_err_append:
  "fold_err f (xs @ ys) s = (case fold_err f xs s of Inl e \<Rightarrow> Inl e | Inr s' \<Rightarrow> fold_err f ys s')"
  by (induction xs arbitrary: s) (auto split: sum.splits)



lemma mset_filter_split: "mset (filter P xs) + mset (filter (\<lambda>x. \<not> P x) xs) = mset xs"
  by (induction xs) auto

section \<open>Properties of the dispatcher\<close>

text \<open>
  Claim C1. The dispatcher's split of a batch is total, disjoint and exhaustive: a query
  is a streaming target exactly when \<open>isStreaming\<close> is true and its type is Metrics,
  every other query of the batch is a regular target, also one with \<open>isStreaming\<close> true
  and another type, and the two lists together hold each query of the batch as often as
  the batch does.
\<close>

theorem dispatcher_partition:
  "(q \<in> set (streamingTargets ts) \<longleftrightarrow>
      q \<in> set ts \<and> isStreaming q = Some True \<and> queryType q = Metrics)
   \<and> (q \<in> set (regularTargets ts) \<longleftrightarrow>
      q \<in> set ts \<and> \<not> (isStreaming q = Some True \<and> queryType q = Metrics))
   \<and> (q \<in> set ts \<and> isStreaming q = Some True \<and> queryType q \<noteq> Metrics
        \<longrightarrow> q \<in> set (regularTargets ts))
   \<and> set (streamingTargets ts) \<inter> set (regularTargets ts) = {}
   \<and> set (streamingTargets ts) \<union> set (regularTargets ts) = set ts
   \<and> mset (streamingTargets ts) + mset (regularTargets ts) = mset ts"
proof -
  have r: "regularTargets ts =
    filter (\<lambda>query. \<not> (isStreaming query = Some True \<and> queryType query = Metrics)) ts"
    by (simp add: regularTargets_def)
  have "mset (streamingTargets ts) + mset (regularTargets ts) = mset ts"
    unfolding r streamingTargets_def by (rule mset_filter_split)
  moreover have "set (streamingTargets ts) \<inter> set (regularTargets ts) = {}"
    unfolding r streamingTargets_def by auto
  moreover have "set (streamingTargets ts) \<union> set (regularTargets ts) = set ts"
    unfolding r streamingTargets_def by auto
  ultimately show ?thesis
    unfolding r streamingTargets_def by simp
qed

theorem dispatcher_partition_witness:
  "query_A\<lparr>isStreaming := Some True, queryType := Raw\<rparr>
     \<in> set (regularTargets [query_A\<lparr>isStreaming := Some True\<rparr>,
                            query_A\<lparr>isStreaming := Some True, queryType := Raw\<rparr>])
   \<and> query_A\<lparr>isStreaming := Some True, queryType := Raw\<rparr>
     \<notin> set (streamingTargets [query_A\<lparr>isStreaming := Some True\<rparr>,
                            query_A\<lparr>isStreaming := Some True, queryType := Raw\<rparr>])"
  using dispatcher_partition [of "query_A\<lparr>isStreaming := Some True, queryType := Raw\<rparr>"
      "[query_A\<lparr>isStreaming := Some True\<rparr>, query_A\<lparr>isStreaming := Some True, queryType := Raw\<rparr>]"]
  by simp

section \<open>Properties of the stream identifier\<close>




section \<open>Properties of the history response\<close>

text \<open>
  Claim C10, as the code has it. For every decoded response body other than \<^verbatim>\<open>null\<close> and
  \<^verbatim>\<open>undefined\<close>, \<open>getSensorHistory\<close> returns the \<open>channels\<close> field when it is truthy,
  otherwise the \<open>histdata\<close> field when it is truthy, otherwise an empty array: \<open>channels\<close>
  wins over \<open>histdata\<close>. Whatever it returns is never \<^verbatim>\<open>null\<close> or \<^verbatim>\<open>undefined\<close>. On a body
  that is \<^verbatim>\<open>null\<close> or \<^verbatim>\<open>undefined\<close> it returns nothing: reading \<^verbatim>\<open>response.channels\<close>
  throws a TypeError.
\<close>

theorem history_rows_precedence:
  "(response \<noteq> Null \<and> response \<noteq> Undefined \<longrightarrow>
      history_rows response =
        Inr (if truthy (js_prop response ''channels'') then js_prop response ''channels''
             else if truthy (js_prop response ''histdata'') then js_prop response ''histdata''
             else Arr []))
   \<and> (response = Null \<or> response = Undefined \<longrightarrow> history_rows response = Inl TypeError)
   \<and> history_rows response \<noteq> Inr Null \<and> history_rows response \<noteq> Inr Undefined
   \<and> getSensorHistory h sid startDate endDate \<noteq> Inr Null
   \<and> getSensorHistory h sid startDate endDate \<noteq> Inr Undefined
   \<and> (num_truthy sid
        \<and> (\<forall>params. baseExecuteRequest h ''historicdata.json'' params = Inr response)
        \<longrightarrow> getSensorHistory h sid startDate endDate = history_rows response)"
proof -
  have n: "history_rows r \<noteq> Inr Null \<and> history_rows r \<noteq> Inr Undefined" for r
    by (auto simp: history_rows_def getProp_def)
  have g: "getSensorHistory h sid startDate endDate \<noteq> Inr Null
    \<and> getSensorHistory h sid startDate endDate \<noteq> Inr Undefined"
    using n by (auto simp: getSensorHistory_def split: sum.splits)
  have p: "response \<noteq> Null \<and> response \<noteq> Undefined \<longrightarrow>
      history_rows response =
        Inr (if truthy (js_prop response ''channels'') then js_prop response ''channels''
             else if truthy (js_prop response ''histdata'') then js_prop response ''histdata''
             else Arr [])"
    by (simp add: history_rows_def getProp_def)
  have q: "response = Null \<or> response = Undefined \<longrightarrow> history_rows response = Inl TypeError"
    by (auto simp: history_rows_def getProp_def)
  have f: "num_truthy sid
        \<and> (\<forall>params. baseExecuteRequest h ''historicdata.json'' params = Inr response)
        \<longrightarrow> getSensorHistory h sid startDate endDate = history_rows response"
    by (simp add: getSensorHistory_def)
  show ?thesis using n [of response] g p q f by blast
qed

theorem history_rows_precedence_witness:
  "history_rows (Obj [(''histdata'', Arr [Str ''h'']), (''channels'', Arr [Str ''c''])]) = Inr (Arr [Str ''c''])
   \<and> history_rows (Obj [(''histdata'', Arr [Str ''h'']), (''channels'', Null)]) = Inr (Arr [Str ''h''])
   \<and> history_rows (Obj [(''treesize'', Num (Fin 0))]) = Inr (Arr [])
   \<and> history_rows Undefined = Inl TypeError"
proof -
  have "history_rows (Obj [(''histdata'', Arr [Str ''h'']), (''channels'', Arr [Str ''c''])]) = Inr (Arr [Str ''c''])"
    using history_rows_precedence [of "Obj [(''histdata'', Arr [Str ''h'']), (''channels'', Arr [Str ''c''])]"]
    by simp
  moreover have "history_rows (Obj [(''histdata'', Arr [Str ''h'']), (''channels'', Null)]) = Inr (Arr [Str ''h''])"
    using history_rows_precedence [of "Obj [(''histdata'', Arr [Str ''h'']), (''channels'', Null)]"]
    by simp
  moreover have "history_rows (Obj [(''treesize'', Num (Fin 0))]) = Inr (Arr [])"
    using history_rows_precedence [of "Obj [(''treesize'', Num (Fin 0))]"]
    by simp
  moreover have "history_rows Undefined = Inl TypeError"
    using history_rows_precedence [of Undefined]
    by simp
  ultimately show ?thesis by simp
qed

text \<open>
  A backend that answers sensor 42 with status 200 and the body \<^verbatim>\<open>null\<close>: \<open>getSensorHistory\<close>
  returns no array, it throws.
\<close>

theorem null_body_counterexample:
  "history_rows Null = Inl TypeError
   \<and> getSensorHistory null_body_host (Fin 42) ''2024-01-01T00-00-00'' ''2024-01-03T00-00-00''
       = Inl TypeError"
  by code_simp

section \<open>Properties of the tagging of live frames\<close>

lemma tag_frame_meta:
  assumes "truthy frame" and "truthy (js_prop frame ''meta'')"
  shows "js_prop (tag_frame sid frame) ''meta'' =
    Obj (obj_set ''preferredVisualisationType'' (Str ''graph'')
          (obj_set ''streamId'' (Str sid)
            (obj_set ''streaming'' (Bool True) (own_entries (js_prop frame ''meta'')))))"
proof (cases frame)
  case (Obj kvs)
  then show ?thesis
    using assms by (simp add: tag_frame_def map_of_obj_set)
qed (use assms in simp_all)

text \<open>
  Claim C8, as the code has it. A frame that is truthy and has a truthy \<open>meta\<close> is
  tagged before it is forwarded: its \<open>meta\<close> gets \<open>streaming = true\<close>, the stream
  identifier and \<open>preferredVisualisationType = "graph"\<close>. Every other frame (one
  without \<open>meta\<close>, a \<^verbatim>\<open>null\<close>) is forwarded as it came, and the emitted batch is the
  arriving frames, each after this step.
\<close>

theorem tag_frame_with_meta:
  "(truthy frame \<and> truthy (js_prop frame ''meta'') \<longrightarrow>
      js_prop (js_prop (tag_frame sid frame) ''meta'') ''streaming'' = Bool True
      \<and> js_prop (js_prop (tag_frame sid frame) ''meta'') ''streamId'' = Str sid
      \<and> js_prop (js_prop (tag_frame sid frame) ''meta'') ''preferredVisualisationType'' = Str ''graph'')
   \<and> (\<not> (truthy frame \<and> truthy (js_prop frame ''meta'')) \<longrightarrow> tag_frame sid frame = frame)
   \<and> (getProp response ''data'' = Inr (Arr frames) \<longrightarrow>
        tag_response sid response = Inr (map (tag_frame sid) frames))"
proof -
  have a: "truthy frame \<and> truthy (js_prop frame ''meta'') \<longrightarrow>
      js_prop (js_prop (tag_frame sid frame) ''meta'') ''streaming'' = Bool True
      \<and> js_prop (js_prop (tag_frame sid frame) ''meta'') ''streamId'' = Str sid
      \<and> js_prop (js_prop (tag_frame sid frame) ''meta'') ''preferredVisualisationType'' = Str ''graph''"
    by (simp add: tag_frame_meta map_of_obj_set)
  have b: "\<not> (truthy frame \<and> truthy (js_prop frame ''meta'')) \<longrightarrow> tag_frame sid frame = frame"
    by (simp add: tag_frame_def)
  have c: "getProp response ''data'' = Inr (Arr frames) \<longrightarrow>
        tag_response sid response = Inr (map (tag_frame sid) frames)"
    by (simp add: tag_response_def)
  show ?thesis using a b c by blast
qed

theorem tag_frame_with_meta_witness:
  "tag_response ''1_A_42_ch1''
     (Obj [(''data'', Arr [Obj [(''name'', Str ''f''), (''meta'', Obj [(''custom'', Null)])]])])
   = Inr [Obj [(''name'', Str ''f''),
               (''meta'', Obj [(''custom'', Null), (''streaming'', Bool True),
                               (''streamId'', Str ''1_A_42_ch1''),
                               (''preferredVisualisationType'', Str ''graph'')])]]
   \<and> js_prop (js_prop (tag_frame ''1_A_42_ch1''
        (Obj [(''name'', Str ''f''), (''meta'', Obj [(''custom'', Null)])])) ''meta'') ''streaming''
      = Bool True"
proof -
  have e: "tag_frame ''1_A_42_ch1'' (Obj [(''name'', Str ''f''), (''meta'', Obj [(''custom'', Null)])])
    = Obj [(''name'', Str ''f''),
               (''meta'', Obj [(''custom'', Null), (''streaming'', Bool True),
                               (''streamId'', Str ''1_A_42_ch1''),
                               (''preferredVisualisationType'', Str ''graph'')])]"
    by code_simp
  have g: "getProp (Obj [(''data'', Arr [Obj [(''name'', Str ''f''), (''meta'', Obj [(''custom'', Null)])]])]) ''data''
    = Inr (Arr [Obj [(''name'', Str ''f''), (''meta'', Obj [(''custom'', Null)])]])"
    by (simp add: getProp_def)
  show ?thesis
    using tag_frame_with_meta [of "Obj [(''name'', Str ''f''), (''meta'', Obj [(''custom'', Null)])]"
        "''1_A_42_ch1''"
        "Obj [(''data'', Arr [Obj [(''name'', Str ''f''), (''meta'', Obj [(''custom'', Null)])]])]"
        "[Obj [(''name'', Str ''f''), (''meta'', Obj [(''custom'', Null)])]]"] g e
    by simp
qed

text \<open>A frame that arrives without \<open>meta\<close> is forwarded with no tag at all.\<close>

theorem untagged_frame_counterexample:
  "tag_response ''1_A_42_ch1'' (Obj [(''data'', Arr [Obj [(''name'', Str ''f''), (''fields'', Arr [])]])])
     = Inr [Obj [(''name'', Str ''f''), (''fields'', Arr [])]]
   \<and> js_prop (Obj [(''name'', Str ''f''), (''fields'', Arr [])]) ''meta'' = Undefined"
  by code_simp

section \<open>Lemmas on the loop over the rows\<close>



lemma process_item_falsy:
  "item \<noteq> Null \<Longrightarrow> item \<noteq> Undefined \<Longrightarrow> \<not> truthy (js_prop item ''datetime'')
   \<Longrightarrow> process_item h item st = Inr st"
  by (simp add: process_item_def getProp_def)

lemma keys_obj_define:
  "fst ` set (obj_define k v kvs) = insert k (fst ` set kvs)"
  by (induction kvs) auto

lemma distinct_obj_define:
  "k \<notin> fst ` set kvs \<Longrightarrow> distinct (map fst kvs) \<Longrightarrow> distinct (map fst (obj_define k v kvs))"
proof (induction kvs)
  case Nil
  show ?case by simp
next
  case (Cons p ps)
  then have "fst p \<notin> fst ` set (obj_define k v ps)"
    unfolding keys_obj_define by auto
  with Cons show ?case by auto
qed

lemma keys_obj_set: "fst ` set (obj_set k v kvs) = insert k (fst ` set kvs)"
  by (simp add: obj_set_def keys_obj_define AList.dom_update)

lemma distinct_obj_set:
  "distinct (map fst kvs) \<Longrightarrow> distinct (map fst (obj_set k v kvs))"
  by (auto simp: obj_set_def distinct_obj_define AList.distinct_update map_of_eq_None_iff)

lemma push_entry_ok:
  assumes "k \<notin> set object_prototype_keys" and "k \<noteq> ''datetime''"
  shows "\<exists>st1. push_entry h (k, v) st = Inr st1 \<and> times st1 = times st
     \<and> fst ` set (values' st1) = insert k (fst ` set (values' st))
     \<and> (distinct (map fst (values' st)) \<longrightarrow> distinct (map fst (values' st1)))
     \<and> (\<forall>k'. values_of st1 k' =
           (if k' = k then values_of st k @ [coerce_value h v] else values_of st k'))"
proof (cases "map_of (values' st) k")
  case None
  then show ?thesis
    using assms
    by (simp add: push_entry_def values_of_def map_of_obj_set keys_obj_set distinct_obj_set)
next
  case (Some arr)
  then show ?thesis
    using assms
    by (simp add: push_entry_def values_of_def map_of_obj_set keys_obj_set distinct_obj_set)
qed

lemma push_entries_ok:
  assumes "distinct (map fst es)" and "fst ` set es \<inter> set object_prototype_keys = {}"
  shows "\<exists>st'. fold_err (push_entry h) es st = Inr st' \<and> times st' = times st
     \<and> fst ` set (values' st') = fst ` set (values' st) \<union> (fst ` set es - {''datetime''})
     \<and> (distinct (map fst (values' st)) \<longrightarrow> distinct (map fst (values' st')))
     \<and> (\<forall>k. values_of st' k =
           (if k \<in> fst ` set es \<and> k \<noteq> ''datetime''
            then values_of st k @ [coerce_value h (js_prop (Obj es) k)]
            else values_of st k))"
  using assms
proof (induction es arbitrary: st)
  case Nil
  show ?case by simp
next
  case (Cons e es)
  obtain k v where e: "e = (k, v)" by (cases e)
  from Cons.prems e have knot: "k \<notin> fst ` set es" and d: "distinct (map fst es)"
    and np: "k \<notin> set object_prototype_keys"
    and p: "fst ` set es \<inter> set object_prototype_keys = {}"
    by auto
  show ?case
  proof (cases "k = ''datetime''")
    case True
    then have step: "push_entry h e st = Inr st"
      by (simp add: e push_entry_def)
    from Cons.IH [OF d p, of st] obtain st' where
      f: "fold_err (push_entry h) es st = Inr st'" and t: "times st' = times st"
      and ks: "fst ` set (values' st') = fst ` set (values' st) \<union> (fst ` set es - {''datetime''})"
      and di: "distinct (map fst (values' st)) \<longrightarrow> distinct (map fst (values' st'))"
      and vs: "\<forall>k. values_of st' k =
           (if k \<in> fst ` set es \<and> k \<noteq> ''datetime''
            then values_of st k @ [coerce_value h (js_prop (Obj es) k)]
            else values_of st k)"
      by blast
    have "fold_err (push_entry h) (e # es) st = Inr st'"
      using step f by simp
    moreover have "fst ` set (values' st') = fst ` set (values' st) \<union> (fst ` set (e # es) - {''datetime''})"
      using ks True e by auto
    moreover have "\<forall>k'. values_of st' k' =
           (if k' \<in> fst ` set (e # es) \<and> k' \<noteq> ''datetime''
            then values_of st k' @ [coerce_value h (js_prop (Obj (e # es)) k')]
            else values_of st k')"
      using vs True e by auto
    ultimately show ?thesis using t di by blast
  next
    case False
    from push_entry_ok [OF np False, of h v st] obtain st1 where
      step: "push_entry h (k, v) st = Inr st1" and t1: "times st1 = times st"
      and ks1: "fst ` set (values' st1) = insert k (fst ` set (values' st))"
      and di1: "distinct (map fst (values' st)) \<longrightarrow> distinct (map fst (values' st1))"
      and vs1: "\<forall>k'. values_of st1 k' =
           (if k' = k then values_of st k @ [coerce_value h v] else values_of st k')"
      by blast
    from Cons.IH [OF d p, of st1] obtain st' where
      f: "fold_err (push_entry h) es st1 = Inr st'" and t: "times st' = times st1"
      and ks: "fst ` set (values' st') = fst ` set (values' st1) \<union> (fst ` set es - {''datetime''})"
      and di: "distinct (map fst (values' st1)) \<longrightarrow> distinct (map fst (values' st'))"
      and vs: "\<forall>k. values_of st' k =
           (if k \<in> fst ` set es \<and> k \<noteq> ''datetime''
            then values_of st1 k @ [coerce_value h (js_prop (Obj es) k)]
            else values_of st1 k)"
      by blast
    have "fold_err (push_entry h) (e # es) st = Inr st'"
      using step f e by simp
    moreover have "times st' = times st"
      using t t1 by simp
    moreover have "fst ` set (values' st') = fst ` set (values' st) \<union> (fst ` set (e # es) - {''datetime''})"
      using ks ks1 False e by auto
    moreover have "distinct (map fst (values' st)) \<longrightarrow> distinct (map fst (values' st'))"
      using di di1 by blast
    moreover have "\<forall>k'. values_of st' k' =
           (if k' \<in> fst ` set (e # es) \<and> k' \<noteq> ''datetime''
            then values_of st k' @ [coerce_value h (js_prop (Obj (e # es)) k')]
            else values_of st k')"
    proof
      fix k'
      show "values_of st' k' =
           (if k' \<in> fst ` set (e # es) \<and> k' \<noteq> ''datetime''
            then values_of st k' @ [coerce_value h (js_prop (Obj (e # es)) k')]
            else values_of st k')"
      proof (cases "k' = k")
        case True
        then show ?thesis
          using vs vs1 knot False e by simp
      next
        case ne: False
        then show ?thesis
          using vs vs1 e by simp
      qed
    qed
    ultimately show ?thesis by blast
  qed
qed

lemma process_item_ok:
  assumes "truthy (js_prop (Obj es) ''datetime'')" and "distinct (map fst es)"
    and "fst ` set es \<inter> set object_prototype_keys = {}"
  shows "\<exists>st'. process_item h (Obj es) st = Inr st'
     \<and> times st' = times st @ [date_getTime h (js_prop (Obj es) ''datetime'')]
     \<and> fst ` set (values' st') = fst ` set (values' st) \<union> (fst ` set es - {''datetime''})
     \<and> (distinct (map fst (values' st)) \<longrightarrow> distinct (map fst (values' st')))
     \<and> (\<forall>k. values_of st' k =
           (if k \<in> fst ` set es \<and> k \<noteq> ''datetime''
            then values_of st k @ [coerce_value h (js_prop (Obj es) k)]
            else values_of st k))"
proof -
  let ?st0 = "st\<lparr>times := times st @ [date_getTime h (js_prop (Obj es) ''datetime'')]\<rparr>"
  have p: "process_item h (Obj es) st = fold_err (push_entry h) es ?st0"
    using assms(1) by (simp add: process_item_def getProp_def)
  have v: "values_of ?st0 = values_of st"
    by (rule ext) (simp add: values_of_def)
  from push_entries_ok [OF assms(2) assms(3), of h ?st0]
  show ?thesis
    unfolding p v by simp
qed

lemma process_item_null:
  "item = Null \<or> item = Undefined \<Longrightarrow> process_item h item st = Inl TypeError"
  by (auto simp: process_item_def getProp_def)

lemma normalize_rows_append:
  "normalize_rows h (xs @ ys) =
     (case normalize_rows h xs of Inl e \<Rightarrow> Inl e | Inr s \<Rightarrow> fold_err (process_item h) ys s)"
  by (simp add: normalize_rows_def fold_err_append)




section \<open>Rows without a timestamp\<close>

text \<open>
  Claim C5, as the code has it. A row other than \<^verbatim>\<open>null\<close> and \<^verbatim>\<open>undefined\<close> whose
  \<open>datetime\<close> is absent or falsy is skipped silently: the accumulators are left as they
  were, so it is not on the time axis and gives no sample, no error is raised, and the
  normalization of the rows is that of the rows without it. A row that is itself \<^verbatim>\<open>null\<close>
  or \<^verbatim>\<open>undefined\<close> is not skipped: reading its \<open>datetime\<close> throws a TypeError and the
  normalization fails. A row whose \<open>datetime\<close> is truthy (an object, its keys distinct and
  none of them a name a plain object inherits) is kept whether or not the \<open>datetime\<close>
  parses: \<^verbatim>\<open>new Date(datetime).getTime()\<close>, \<open>NaN\<close> for an unparsable one, is appended to
  the time axis, and for each of its keys other than \<open>datetime\<close> the coerced value is
  appended to the series of that key, the other series staying as they were.
\<close>

theorem falsy_timestamp_row_skipped:
  "(item \<noteq> Null \<and> item \<noteq> Undefined \<and> \<not> truthy (js_prop item ''datetime'') \<longrightarrow>
      process_item h item st = Inr st
      \<and> normalize_rows h (xs @ item # ys) = normalize_rows h (xs @ ys))
   \<and> (item = Null \<or> item = Undefined \<longrightarrow>
        process_item h item st = Inl TypeError
        \<and> (\<exists>err. normalize_rows h (xs @ item # ys) = Inl err))
   \<and> (truthy (js_prop (Obj es) ''datetime'') \<and> distinct (map fst es)
        \<and> fst ` set es \<inter> set object_prototype_keys = {} \<longrightarrow>
        (\<exists>st'. process_item h (Obj es) st = Inr st'
           \<and> times st' = times st @ [date_getTime h (js_prop (Obj es) ''datetime'')]
           \<and> (\<forall>k. values_of st' k =
                 (if k \<in> fst ` set es \<and> k \<noteq> ''datetime''
                  then values_of st k @ [coerce_value h (js_prop (Obj es) k)]
                  else values_of st k))))"
proof -
  have a: "item \<noteq> Null \<and> item \<noteq> Undefined \<and> \<not> truthy (js_prop item ''datetime'') \<longrightarrow>
      process_item h item st = Inr st
      \<and> normalize_rows h (xs @ item # ys) = normalize_rows h (xs @ ys)"
  proof (intro impI)
    assume f: "item \<noteq> Null \<and> item \<noteq> Undefined \<and> \<not> truthy (js_prop item ''datetime'')"
    then have skip: "process_item h item s = Inr s" for s
      by (simp add: process_item_falsy)
    have "normalize_rows h (xs @ item # ys) = normalize_rows h (xs @ ys)"
      by (simp add: normalize_rows_def fold_err_append skip split: sum.splits)
    with skip show "process_item h item st = Inr st
      \<and> normalize_rows h (xs @ item # ys) = normalize_rows h (xs @ ys)"
      by simp
  qed
  have b: "item = Null \<or> item = Undefined \<longrightarrow>
        process_item h item st = Inl TypeError
        \<and> (\<exists>err. normalize_rows h (xs @ item # ys) = Inl err)"
  proof (intro impI)
    assume n: "item = Null \<or> item = Undefined"
    then have thr: "process_item h item s = Inl TypeError" for s
      by (rule process_item_null)
    have "\<exists>err. normalize_rows h (xs @ item # ys) = Inl err"
      by (simp add: normalize_rows_append thr split: sum.splits)
    with thr show "process_item h item st = Inl TypeError
        \<and> (\<exists>err. normalize_rows h (xs @ item # ys) = Inl err)"
      by simp
  qed
  have c: "truthy (js_prop (Obj es) ''datetime'') \<and> distinct (map fst es)
        \<and> fst ` set es \<inter> set object_prototype_keys = {} \<longrightarrow>
        (\<exists>st'. process_item h (Obj es) st = Inr st'
           \<and> times st' = times st @ [date_getTime h (js_prop (Obj es) ''datetime'')]
           \<and> (\<forall>k. values_of st' k =
                 (if k \<in> fst ` set es \<and> k \<noteq> ''datetime''
                  then values_of st k @ [coerce_value h (js_prop (Obj es) k)]
                  else values_of st k)))"
  proof (intro impI)
    assume k: "truthy (js_prop (Obj es) ''datetime'') \<and> distinct (map fst es)
        \<and> fst ` set es \<inter> set object_prototype_keys = {}"
    then have k1: "truthy (js_prop (Obj es) ''datetime'')" and k2: "distinct (map fst es)"
      and k3: "fst ` set es \<inter> set object_prototype_keys = {}"
      by blast+
    from process_item_ok [OF k1 k2 k3, of h st]
    show "\<exists>st'. process_item h (Obj es) st = Inr st'
           \<and> times st' = times st @ [date_getTime h (js_prop (Obj es) ''datetime'')]
           \<and> (\<forall>k. values_of st' k =
                 (if k \<in> fst ` set es \<and> k \<noteq> ''datetime''
                  then values_of st k @ [coerce_value h (js_prop (Obj es) k)]
                  else values_of st k))"
      by blast
  qed
  from a b c show ?thesis
    by (intro conjI)
qed

theorem falsy_timestamp_row_skipped_witness:
  "normalize_rows example_host
     [Obj [(''datetime'', Str ''2024-01-01T00:00:00Z''), (''Value'', Num (Fin 1))],
      Obj [(''datetime'', Str []), (''Value'', Num (Fin 2))],
      Obj [(''Value'', Num (Fin 3))],
      Obj [(''datetime'', Str ''2024-01-01T01:00:00Z''), (''Value'', Num (Fin 4))]]
   = Inr \<lparr>times = [Fin 1704067200000, Fin 1704070800000],
          values' = [(''Value'', [Fin 1, Fin 4])],
          channelLabels = [(''Value'', ''Value'')]\<rparr>
   \<and> process_item example_host Null init_state = Inl TypeError
   \<and> (\<exists>st'. process_item example_host
               (Obj [(''datetime'', Str ''not a date''), (''Value'', Num (Fin 5))]) init_state = Inr st'
          \<and> times st' = [NaN] \<and> values_of st' ''Value'' = [Fin 5])"
proof -
  have e: "normalize_rows example_host
     [Obj [(''datetime'', Str ''2024-01-01T00:00:00Z''), (''Value'', Num (Fin 1))],
      Obj [(''datetime'', Str ''2024-01-01T01:00:00Z''), (''Value'', Num (Fin 4))]]
   = Inr \<lparr>times = [Fin 1704067200000, Fin 1704070800000],
          values' = [(''Value'', [Fin 1, Fin 4])],
          channelLabels = [(''Value'', ''Value'')]\<rparr>"
    by code_simp
  have s1: "normalize_rows example_host
     ([Obj [(''datetime'', Str ''2024-01-01T00:00:00Z''), (''Value'', Num (Fin 1))]]
      @ Obj [(''datetime'', Str []), (''Value'', Num (Fin 2))]
      # [Obj [(''Value'', Num (Fin 3))],
         Obj [(''datetime'', Str ''2024-01-01T01:00:00Z''), (''Value'', Num (Fin 4))]])
    = normalize_rows example_host
     ([Obj [(''datetime'', Str ''2024-01-01T00:00:00Z''), (''Value'', Num (Fin 1))]]
      @ [Obj [(''Value'', Num (Fin 3))],
         Obj [(''datetime'', Str ''2024-01-01T01:00:00Z''), (''Value'', Num (Fin 4))]])"
    using falsy_timestamp_row_skipped [of "Obj [(''datetime'', Str []), (''Value'', Num (Fin 2))]"
       example_host init_state
       "[Obj [(''datetime'', Str ''2024-01-01T00:00:00Z''), (''Value'', Num (Fin 1))]]"
       "[Obj [(''Value'', Num (Fin 3))],
         Obj [(''datetime'', Str ''2024-01-01T01:00:00Z''), (''Value'', Num (Fin 4))]]" "[]"]
    by simp
  have s2: "normalize_rows example_host
     ([Obj [(''datetime'', Str ''2024-01-01T00:00:00Z''), (''Value'', Num (Fin 1))]]
      @ Obj [(''Value'', Num (Fin 3))]
      # [Obj [(''datetime'', Str ''2024-01-01T01:00:00Z''), (''Value'', Num (Fin 4))]])
    = normalize_rows example_host
     ([Obj [(''datetime'', Str ''2024-01-01T00:00:00Z''), (''Value'', Num (Fin 1))]]
      @ [Obj [(''datetime'', Str ''2024-01-01T01:00:00Z''), (''Value'', Num (Fin 4))]])"
    using falsy_timestamp_row_skipped [of "Obj [(''Value'', Num (Fin 3))]"
       example_host init_state
       "[Obj [(''datetime'', Str ''2024-01-01T00:00:00Z''), (''Value'', Num (Fin 1))]]"
       "[Obj [(''datetime'', Str ''2024-01-01T01:00:00Z''), (''Value'', Num (Fin 4))]]" "[]"]
    by simp
  have s3: "process_item example_host Null init_state = Inl TypeError"
    using falsy_timestamp_row_skipped [of Null example_host init_state "[]" "[]" "[]"]
    by simp
  have hyp: "truthy (js_prop (Obj [(''datetime'', Str ''not a date''), (''Value'', Num (Fin 5))]) ''datetime'')
      \<and> distinct (map fst [(''datetime'', Str ''not a date''), (''Value'', Num (Fin 5))])
      \<and> fst ` set [(''datetime'', Str ''not a date''), (''Value'', Num (Fin 5))]
          \<inter> set object_prototype_keys = {}"
    by (simp add: object_prototype_keys_def)
  have ev: "date_getTime example_host (js_prop (Obj [(''datetime'', Str ''not a date''), (''Value'', Num (Fin 5))]) ''datetime'') = NaN
      \<and> coerce_value example_host (js_prop (Obj [(''datetime'', Str ''not a date''), (''Value'', Num (Fin 5))]) ''Value'') = Fin 5
      \<and> times init_state = [] \<and> values_of init_state ''Value'' = []"
    by (simp add: example_host_def coerce_value_def init_state_def values_of_def)
  from falsy_timestamp_row_skipped [of Null example_host init_state "[]" "[]"
      "[(''datetime'', Str ''not a date''), (''Value'', Num (Fin 5))]"] hyp
  obtain st' where p: "process_item example_host
        (Obj [(''datetime'', Str ''not a date''), (''Value'', Num (Fin 5))]) init_state = Inr st'"
    and t: "times st' = times init_state
        @ [date_getTime example_host (js_prop (Obj [(''datetime'', Str ''not a date''), (''Value'', Num (Fin 5))]) ''datetime'')]"
    and v: "\<forall>k. values_of st' k =
                 (if k \<in> fst ` set [(''datetime'', Str ''not a date''), (''Value'', Num (Fin 5))] \<and> k \<noteq> ''datetime''
                  then values_of init_state k @ [coerce_value example_host (js_prop (Obj [(''datetime'', Str ''not a date''), (''Value'', Num (Fin 5))]) k)]
                  else values_of init_state k)"
    by blast
  have s4: "\<exists>st'. process_item example_host
               (Obj [(''datetime'', Str ''not a date''), (''Value'', Num (Fin 5))]) init_state = Inr st'
          \<and> times st' = [NaN] \<and> values_of st' ''Value'' = [Fin 5]"
    using p t v [rule_format, of "''Value''"] ev by auto
  from s1 s2 e have s0: "normalize_rows example_host
     [Obj [(''datetime'', Str ''2024-01-01T00:00:00Z''), (''Value'', Num (Fin 1))],
      Obj [(''datetime'', Str []), (''Value'', Num (Fin 2))],
      Obj [(''Value'', Num (Fin 3))],
      Obj [(''datetime'', Str ''2024-01-01T01:00:00Z''), (''Value'', Num (Fin 4))]]
   = Inr \<lparr>times = [Fin 1704067200000, Fin 1704070800000],
          values' = [(''Value'', [Fin 1, Fin 4])],
          channelLabels = [(''Value'', ''Value'')]\<rparr>"
    by simp
  from s0 s3 s4 show ?thesis
    by (intro conjI)
qed

text \<open>
  A row with an unparsable, non-empty timestamp is not skipped: it adds \<open>NaN\<close> to the
  time axis and its sample to the series, where skipping it would leave both empty.
\<close>

theorem unparsable_timestamp_counterexample:
  "normalize_rows example_host
     [Obj [(''datetime'', Str ''not a date''), (''Value'', Num (Fin 5))]]
   = Inr \<lparr>times = [NaN], values' = [(''Value'', [Fin 5])], channelLabels = [(''Value'', ''Value'')]\<rparr>
   \<and> normalize_rows example_host [] = Inr \<lparr>times = [], values' = [], channelLabels = []\<rparr>"
  by code_simp

section \<open>Isolation of failures on the regular path\<close>

lemma regular_frames_append:
  "regular_frames h rng (xs @ ys) = regular_frames h rng xs @ regular_frames h rng ys"
  by (simp add: regular_frames_def)

lemma regular_frames_Cons:
  "regular_frames h rng (t # ts) = data (process_target h rng t) @ regular_frames h rng ts"
  by (simp add: regular_frames_def)

lemma try_metrics_refId: "try_metrics h rng t = Inr r \<Longrightarrow> result_refId r = refId t"
  by (auto simp: try_metrics_def split: sum.splits if_splits)

lemma process_target_refId: "result_refId (process_target h rng t) = refId t"
  by (auto simp: process_target_def split: sum.splits dest: try_metrics_refId)

text \<open>
  Claim C7. A throw while one regular target is resolved (a rejected request, a missing
  sensor id, a TypeError in the loop over the rows) is caught and becomes the empty batch
  carrying that target's \<open>refId\<close>; the frames of the batch are then the frames of the
  targets before it followed by those of the targets after it, each resolved on its own.
  The regular path as a whole emits its frames and never an error.
\<close>

theorem failing_query_isolated:
  "(queryType t = Metrics \<and> sensorId t \<noteq> [] \<and> try_metrics h rng t = Inl e \<longrightarrow>
      process_target h rng t = \<lparr>result_refId = refId t, data = []\<rparr>
      \<and> regular_frames h rng (xs @ t # ys) = regular_frames h rng xs @ regular_frames h rng ys)
   \<and> regular_frames h rng (xs @ t # ys)
       = regular_frames h rng xs @ data (process_target h rng t) @ regular_frames h rng ys
   \<and> result_refId (process_target h rng t) = refId t
   \<and> (regularTargets (targets options) \<noteq> [] \<longrightarrow>
        Emit (regular_frames h (range options) (regularTargets (targets options)))
          \<in> set (query h options))"
proof -
  have a: "regular_frames h rng (xs @ t # ys)
       = regular_frames h rng xs @ data (process_target h rng t) @ regular_frames h rng ys"
    by (simp add: regular_frames_append regular_frames_Cons)
  have b: "queryType t = Metrics \<and> sensorId t \<noteq> [] \<and> try_metrics h rng t = Inl e \<longrightarrow>
      process_target h rng t = \<lparr>result_refId = refId t, data = []\<rparr>"
    by (simp add: process_target_def)
  have c: "regularTargets (targets options) \<noteq> [] \<longrightarrow>
        Emit (regular_frames h (range options) (regularTargets (targets options)))
          \<in> set (query h options)"
    by (simp add: query_def Let_def)
  show ?thesis
    using a b c process_target_refId [of h rng t] by auto
qed

text \<open>The example backend rejects query B and answers query A with two rows.\<close>

lemma try_metrics_query_B: "try_metrics example_host example_range query_B = Inl (Rejected ''Network Error'')"
  by code_simp

lemma process_target_query_A:
  "process_target example_host example_range query_A =
     \<lparr>result_refId = ''A'',
      data = [\<lparr>frame_refId = ''A'', frame_name = ''D - Value'',
               frame_fields =
                 [\<lparr>field_name = ''Time'', field_values = [Fin 1704067200000, Fin 1704070800000],
                   field_type = FieldType_time\<rparr>,
                  \<lparr>field_name = ''Value'', field_values = [Fin 1, Fin 1.5],
                   field_type = FieldType_number\<rparr>]\<rparr>]\<rparr>"
  by code_simp

theorem failing_query_isolated_witness:
  "process_target example_host example_range query_B = \<lparr>result_refId = ''B'', data = []\<rparr>
   \<and> regular_frames example_host example_range [query_B, query_A]
     = [\<lparr>frame_refId = ''A'', frame_name = ''D - Value'',
               frame_fields =
                 [\<lparr>field_name = ''Time'', field_values = [Fin 1704067200000, Fin 1704070800000],
                   field_type = FieldType_time\<rparr>,
                  \<lparr>field_name = ''Value'', field_values = [Fin 1, Fin 1.5],
                   field_type = FieldType_number\<rparr>]\<rparr>]"
proof -
  have q: "queryType query_B = Metrics \<and> sensorId query_B \<noteq> [] \<and> refId query_B = ''B''"
    by (simp add: query_B_def query_A_def)
  have r: "regular_frames example_host example_range [query_A] = data (process_target example_host example_range query_A)"
    by (simp add: regular_frames_def)
  show ?thesis
    using failing_query_isolated [of query_B example_host example_range "Rejected ''Network Error''" "[]" "[query_A]"]
      try_metrics_query_B q r process_target_query_A
    by (simp add: regular_frames_def)
qed

section \<open>Rows with the same keys\<close>







end
